theory Spec2Isabelle
  imports Main "HOL-Library.Sublist" "HOL-Library.AList"
begin

section \<open>Text primitives of the scripts\<close>

text \<open>
  Python text is modelled as \<^typ>\<open>string\<close>; one \<^typ>\<open>char\<close> is one character of the
  text (HOL characters are 8 bits wide, so the characters are those below 256).
\<close>

text \<open>The test \<^verbatim>\<open>sub in s\<close> on two strings: \<open>sub\<close> occurs in \<open>s\<close> at some position.\<close>

fun is_substr :: "string \<Rightarrow> string \<Rightarrow> bool" where
  "is_substr sub [] = (sub = [])"
| "is_substr sub (c # cs) = (prefix sub (c # cs) \<or> is_substr sub cs)"

text \<open>The line feed and the carriage return.\<close>

definition nl :: char where
  "nl = CHR 0x0A"

definition cr :: char where
  "cr = CHR 0x0D"

text \<open>
  What a file opened for reading in text mode, without \<^verbatim>\<open>newline=\<close>, hands to the
  script: every line end of the file, be it a line feed, a carriage return or the two in
  this order, arrives as one line feed. (Written text goes out with \<^verbatim>\<open>os.linesep\<close> for
  every line feed, which on POSIX, whose paths the scripts build, is the line feed itself.)
\<close>

fun universal_newlines :: "string \<Rightarrow> string" where
  "universal_newlines [] = []"
| "universal_newlines [c] = (if c = cr then [nl] else [c])"
| "universal_newlines (c # d # cs) =
     (if c = cr
      then (if d = nl then nl # universal_newlines cs else nl # universal_newlines (d # cs))
      else c # universal_newlines (d # cs))"

text \<open>
  The text cut after every line feed, each line keeping its terminator; a last line without
  a terminator is a line too, and the empty text has no line.
\<close>

fun cut_lines :: "string \<Rightarrow> string list" where
  "cut_lines [] = []"
| "cut_lines (c # cs) =
     (if c = nl then [c] # cut_lines cs
      else (case cut_lines cs of [] \<Rightarrow> [[c]] | l # ls \<Rightarrow> (c # l) # ls))"

text \<open>
  \<^verbatim>\<open>file.readlines()\<close> on a file of the given content, opened in text mode: the lines of
  the translated text, so a line of the file ends at a line feed, at a carriage return or
  at the two together, and every line read ends in a line feed, but for a last line that has
  no terminator in the file.
\<close>

definition readlines :: "string \<Rightarrow> string list" where
  "readlines content = cut_lines (universal_newlines content)"

text \<open>
  \<^verbatim>\<open>str.isspace\<close> on one character, for the characters below 256: tab to carriage
  return, the four separators 0x1C to 0x1F, space, next line (0x85) and no-break space (0xA0).
\<close>

definition isspace :: "char \<Rightarrow> bool" where
  "isspace c =
     (let n = (of_char c :: nat)
      in (9 \<le> n \<and> n \<le> 13) \<or> (28 \<le> n \<and> n \<le> 32) \<or> n = 133 \<or> n = 160)"

text \<open>\<^verbatim>\<open>s.strip()\<close>: the whitespace at both ends is dropped.\<close>

definition py_strip :: "string \<Rightarrow> string" where
  "py_strip s = rev (dropWhile isspace (rev (dropWhile isspace s)))"

text \<open>
  \<^verbatim>\<open>s.split('\n')\<close>: the pieces between the line feeds, one more than there are line
  feeds, so the empty string gives the list of the empty string.
\<close>

fun split_nl :: "string \<Rightarrow> string list" where
  "split_nl [] = [[]]"
| "split_nl (c # cs) =
     (if c = nl then [] # split_nl cs
      else (case split_nl cs of [] \<Rightarrow> [[c]] | w # ws \<Rightarrow> (c # w) # ws))"

text \<open>
  \<^verbatim>\<open>os.path.join(a, b)\<close> for a relative \<open>b\<close>, and \<^verbatim>\<open>os.path.basename(p)\<close>, on POSIX
  paths.
\<close>

definition path_join :: "string \<Rightarrow> string \<Rightarrow> string" where
  "path_join a b = (if a = [] \<or> last a = CHR ''/'' then a @ b else a @ ''/'' @ b)"

definition basename :: "string \<Rightarrow> string" where
  "basename p = rev (takeWhile (\<lambda>c. c \<noteq> CHR ''/'') (rev p))"

section \<open>The outcome of a run\<close>

text \<open>
  A run ends by \<^verbatim>\<open>exit(n)\<close> (falling off the end of the script is \<^verbatim>\<open>exit(0)\<close>) or by an
  exception nobody catches. The outcome records the printed lines in order, the files after
  the run, and the paths the run opened for reading and for writing.
\<close>

datatype error = FileNotFoundError | YAMLError | GitError | KeyError | TypeError

datatype status = Exit nat | Raised error

type_synonym filesystem = "string \<rightharpoonup> string"

section \<open>The resource stripper: app/src/debug/res/strip.py\<close>

text \<open>The two tests of the loop body.\<close>

definition is_marker :: "string \<Rightarrow> bool" where
  "is_marker line = is_substr ''app_name'' line"

definition is_closing :: "string \<Rightarrow> bool" where
  "is_closing line = is_substr ''</resources>'' line"

text \<open>The two variables the loop updates, and one pass through its body.\<close>

record strip_state =
  finalLines :: "string list"
  startDelete :: bool

definition strip_step :: "string \<Rightarrow> strip_state \<Rightarrow> strip_state" where
  "strip_step line st =
     (if is_marker line
      then st\<lparr>startDelete := True, finalLines := finalLines st @ [line]\<rparr>
      else if \<not> startDelete st \<or> is_closing line
      then st\<lparr>finalLines := finalLines st @ [line]\<rparr>
      else st)"

definition strip_lines :: "string list \<Rightarrow> string list" where
  "strip_lines lines =
     finalLines (fold strip_step lines \<lparr>finalLines = [], startDelete = False\<rparr>)"

text \<open>What deleting mode keeps: the lines that pass one of the two tests.\<close>

definition kept :: "string \<Rightarrow> bool" where
  "kept line = (is_marker line \<or> is_closing line)"

text \<open>
  The whole script. \<open>abspath\<close> is \<^verbatim>\<open>os.path.abspath\<close>, which depends on the working
  directory of the process; \<open>argv\<close> is \<^verbatim>\<open>sys.argv\<close>, the script's own name first.
  A printed line is \<open>Text s\<close>; \<open>TextVal s v\<close> is \<^verbatim>\<open>print(s, v)\<close> for a value \<open>v\<close> of the
  workflow document, used by the tag scripts only, as is \<open>document\<close>: the value of their
  variable \<^verbatim>\<open>dataLoaded\<close> when the run ends, if it was ever bound.
\<close>

datatype 'v printed = Text string | TextVal string 'v

record 'v outcome =
  status :: status
  stdout :: "'v printed list"
  files :: filesystem
  reads :: "string list"
  writes :: "string list"
  document :: "'v option"

definition strip_main ::
  "(string \<Rightarrow> string) \<Rightarrow> string list \<Rightarrow> filesystem \<Rightarrow> 'v outcome" where
  "strip_main abspath argv fs =
     (if length argv \<noteq> 2
      then \<lparr>status = Exit 93, stdout = [Text ''values folder not provided''],
            files = fs, reads = [], writes = [], document = None\<rparr>
      else
        let stringsFileXML = path_join (abspath (argv ! 1)) ''strings.xml'' in
        (case fs stringsFileXML of
           None \<Rightarrow>
             \<lparr>status = Raised FileNotFoundError, stdout = [Text stringsFileXML],
              files = fs, reads = [stringsFileXML], writes = [], document = None\<rparr>
         | Some text \<Rightarrow>
             let lines = readlines text;
                 final = concat (strip_lines lines)
             in \<lparr>status = Exit 0, stdout = [Text stringsFileXML, Text final],
                 files = fs(stringsFileXML \<mapsto> final),
                 reads = [stringsFileXML], writes = [stringsFileXML], document = None\<rparr>))"

section \<open>The workflow document\<close>

text \<open>
  What \<^verbatim>\<open>yaml.load\<close> returns in round-trip mode is a graph of Python objects. A mapping
  and a sequence are objects that a value refers to and that an assignment changes in place;
  an anchor of the file and its aliases are references to one object. The objects of a
  document stand in a list, and the address of an object is its position there. A scalar is
  a value of its own. Every node carries what the loader remembers of its layout (comments,
  quotes, flow or block style), of some type \<open>'c\<close>; a plain Python list or string, which the
  script builds itself, carries none. A scalar that is not a string (a number, a boolean,
  null) is \<open>NonStr\<close> with its text.
\<close>

type_synonym addr = nat

datatype 'c val =
    Str "'c option" string
  | NonStr "'c option" string
  | Ref addr

datatype 'c obj =
    Seq "'c option" "'c val list"
  | Map "'c option" "(string \<times> 'c val) list"

record 'c yaml =
  root :: "'c val"
  heap :: "'c obj list"

text \<open>
  The object at an address. No Python value refers to an object that is not there; for an
  address beyond the list the operations below answer as for a value that is no mapping.
\<close>

definition deref :: "'c obj list \<Rightarrow> addr \<Rightarrow> 'c obj option" where
  "deref h a = (if a < length h then Some (h ! a) else None)"

text \<open>\<^verbatim>\<open>d[k]\<close> for a string key \<open>k\<close>, and \<^verbatim>\<open>d[k] = v\<close>, which changes the object \<open>d\<close> itself.\<close>

fun getitem :: "'c obj list \<Rightarrow> 'c val \<Rightarrow> string \<Rightarrow> error + 'c val" where
  "getitem h (Ref a) k =
     (case deref h a of
        Some (Map c kvs) \<Rightarrow> (case map_of kvs k of None \<Rightarrow> Inl KeyError | Some v \<Rightarrow> Inr v)
      | _ \<Rightarrow> Inl TypeError)"
| "getitem h _ k = Inl TypeError"

fun setitem :: "'c obj list \<Rightarrow> 'c val \<Rightarrow> string \<Rightarrow> 'c val \<Rightarrow> error + 'c obj list" where
  "setitem h (Ref a) k v =
     (case deref h a of
        Some (Map c kvs) \<Rightarrow> Inr (h[a := Map c (AList.update k v kvs)])
      | _ \<Rightarrow> Inl TypeError)"
| "setitem h _ k v = Inl TypeError"

text \<open>\<^verbatim>\<open>d[k1][k2]...[kn]\<close>, read from left to right.\<close>

fun get_path :: "'c obj list \<Rightarrow> 'c val \<Rightarrow> string list \<Rightarrow> error + 'c val" where
  "get_path h d [] = Inr d"
| "get_path h d (k # ks) =
     (case getitem h d k of Inl e \<Rightarrow> Inl e | Inr d' \<Rightarrow> get_path h d' ks)"

text \<open>
  \<^verbatim>\<open>d[k1]...[kn][k] = v\<close>: the value \<^verbatim>\<open>d[k1]...[kn]\<close> is looked up, and the object it refers
  to is changed in place, for every path that reaches it.
\<close>

definition assign_path ::
  "'c obj list \<Rightarrow> 'c val \<Rightarrow> string list \<Rightarrow> string \<Rightarrow> 'c val \<Rightarrow> error + 'c obj list" where
  "assign_path h d ps k v =
     (case get_path h d ps of Inl e \<Rightarrow> Inl e | Inr target \<Rightarrow> setitem h target k v)"

text \<open>
  \<^verbatim>\<open>x == t\<close> for a Python string \<open>t\<close>, and \<^verbatim>\<open>x == ts\<close> for a list of Python strings:
  a list is equal to a list of the same length with equal elements, whatever the layout of
  either.
\<close>

fun str_eq :: "'c val \<Rightarrow> string \<Rightarrow> bool" where
  "str_eq (Str c s) t = (s = t)"
| "str_eq _ t = False"

fun list_eq :: "'c obj list \<Rightarrow> 'c val \<Rightarrow> string list \<Rightarrow> bool" where
  "list_eq h (Ref a) ts =
     (case deref h a of Some (Seq c xs) \<Rightarrow> list_all2 str_eq xs ts | _ \<Rightarrow> False)"
| "list_eq h _ ts = False"

text \<open>
  The Python list \<open>tags\<close> as an object, and the step that makes it one of the objects of a
  document: it gets the next address.
\<close>

definition py_list :: "string list \<Rightarrow> 'c obj" where
  "py_list ts = Seq None (map (Str None) ts)"

definition alloc :: "'c obj list \<Rightarrow> 'c obj \<Rightarrow> addr \<times> 'c obj list" where
  "alloc h ob = (length h, h @ [ob])"

section \<open>The two tag scripts\<close>

text \<open>
  What the scripts call and do not define: \<^verbatim>\<open>os.path.abspath\<close>;
  \<^verbatim>\<open>yaml.load\<close> on the file opened for reading, from the content of the file to the
  document, and \<^verbatim>\<open>yaml.dump\<close> into the file opened for writing, from the document to the
  content of the file; \<^verbatim>\<open>git.Repo(dir).git.tag('-l', '--sort=-v:refname')\<close> of the
  repository-object variant (it fails where the directory is no repository) and
  \<^verbatim>\<open>os.popen('git tag -l --sort=-v:refname').read()\<close> of the shell variant, which runs in
  the working directory of the process.
\<close>

record 'c lib =
  abspath :: "string \<Rightarrow> string"
  yaml_load :: "string \<Rightarrow> error + 'c yaml"
  yaml_dump :: "'c yaml \<Rightarrow> string"
  repo_git_tag :: "string \<Rightarrow> error + string"
  popen_git_tag :: string

text \<open>A name between double quotes, as the messages of the first variant print it.\<close>

definition quoted :: "string \<Rightarrow> string" where
  "quoted s = [CHR 0x22] @ s @ [CHR 0x22]"

definition usage :: string where
  "usage = ''must supply git top level with `git rev-parse --show-toplevel`''"

definition publish_release_yaml :: "string \<Rightarrow> string" where
  "publish_release_yaml dir = dir @ ''/.github/workflows/publish_release.yml''"

text \<open>
  \<^verbatim>\<open>dataLoaded['on']['workflow_dispatch']['inputs']['releaseTag']['options']\<close>, read, and
  assigned the list \<open>tags\<close>: the mapping \<^verbatim>\<open>dataLoaded['on']...['releaseTag']\<close> is the object
  changed.
\<close>

definition release_tag_path :: "string list" where
  "release_tag_path = [''on'', ''workflow_dispatch'', ''inputs'', ''releaseTag'']"

definition options_path :: "string list" where
  "options_path = [''on'', ''workflow_dispatch'', ''inputs'', ''releaseTag'', ''options'']"

definition get_options :: "'c yaml \<Rightarrow> error + 'c val" where
  "get_options d = get_path (heap d) (root d) options_path"

definition set_options :: "'c yaml \<Rightarrow> string list \<Rightarrow> error + 'c yaml" where
  "set_options d tags =
     (let (a, h) = alloc (heap d) (py_list tags) in
      case assign_path h (root d) release_tag_path ''options'' (Ref a) of
        Inl e \<Rightarrow> Inl e
      | Inr h' \<Rightarrow> Inr (d\<lparr>heap := h'\<rparr>))"

text \<open>
  A value as \<^verbatim>\<open>print\<close> shows it: the value with the objects as they are at that moment.
\<close>

definition shown :: "'c yaml \<Rightarrow> 'c val \<Rightarrow> 'c yaml" where
  "shown d v = d\<lparr>root := v\<rparr>"


text \<open>The tag list: \<^verbatim>\<open>out.strip().split('\n')\<close>.\<close>

definition tags_of :: "string \<Rightarrow> string list" where
  "tags_of out = split_nl (py_strip out)"

text \<open>
  A run that ends on an exception \<open>e\<close>, with what it had printed, the files as they are
  then, the path read so far and the document if loaded; nothing is written on these paths
  but where \<open>ws\<close> says so.
\<close>

definition raised ::
  "error \<Rightarrow> 'v printed list \<Rightarrow> filesystem \<Rightarrow> string list \<Rightarrow> string list \<Rightarrow> 'v option
     \<Rightarrow> 'v outcome" where
  "raised e out fs rs ws doc =
     \<lparr>status = Raised e, stdout = out, files = fs, reads = rs, writes = ws, document = doc\<rparr>"

text \<open>
  git\_hooks/update\_publish\_tags.py, the repository-object variant. The script looks the
  options up again for each \<^verbatim>\<open>print\<close>; a lookup repeated on a document that has not
  changed since is written once here, the one after the assignment is a lookup of its own.
  Opening the file for writing and dumping into it is one step: the dumper is total.
\<close>

definition hook_main :: "'c lib \<Rightarrow> string list \<Rightarrow> filesystem \<Rightarrow> 'c yaml outcome" where
  "hook_main L argv fs =
     (if length argv \<noteq> 2
      then \<lparr>status = Exit 93, stdout = [Text usage], files = fs, reads = [], writes = [],
            document = None\<rparr>
      else
        let gitRepoTopLevelAbsPath = abspath L (argv ! 1);
            publishReleaseYamlPath = publish_release_yaml gitRepoTopLevelAbsPath
        in
        (case repo_git_tag L gitRepoTopLevelAbsPath of
           Inl e \<Rightarrow> raised e [] fs [] [] None
         | Inr out \<Rightarrow>
        let tags = tags_of out in
        (case fs publishReleaseYamlPath of
           None \<Rightarrow> raised FileNotFoundError [] fs [publishReleaseYamlPath] [] None
         | Some text \<Rightarrow>
        (case yaml_load L text of
           Inl e \<Rightarrow> raised e [] fs [publishReleaseYamlPath] [] None
         | Inr dataLoaded \<Rightarrow>
        let publishReleaseYamlFileName = basename publishReleaseYamlPath in
        (case get_options dataLoaded of
           Inl e \<Rightarrow> raised e [] fs [publishReleaseYamlPath] [] (Some dataLoaded)
         | Inr options \<Rightarrow>
        if \<not> list_eq (heap dataLoaded) options tags
        then
          let out1 =
            [TextVal (''tags in '' @ quoted publishReleaseYamlFileName @ '':'')
               (shown dataLoaded options)]
          in
          (case set_options dataLoaded tags of
             Inl e \<Rightarrow> raised e out1 fs [publishReleaseYamlPath] [] (Some dataLoaded)
           | Inr dataLoaded' \<Rightarrow>
          let fs' = fs(publishReleaseYamlPath \<mapsto> yaml_dump L dataLoaded') in
          (case get_options dataLoaded' of
             Inl e \<Rightarrow>
               raised e out1 fs' [publishReleaseYamlPath] [publishReleaseYamlPath]
                 (Some dataLoaded')
           | Inr options' \<Rightarrow>
               \<lparr>status = Exit 0,
                stdout = out1 @
                  [TextVal (''updated tags in '' @ quoted publishReleaseYamlFileName @ '' to:'')
                     (shown dataLoaded' options'),
                   Text ''tags updated!''],
                files = fs',
                reads = [publishReleaseYamlPath], writes = [publishReleaseYamlPath],
                document = Some dataLoaded'\<rparr>))
        else
          \<lparr>status = Exit 93,
           stdout =
             [Text (''tags in '' @ quoted publishReleaseYamlFileName @ '' are up to date!'')],
           files = fs, reads = [publishReleaseYamlPath], writes = [],
           document = Some dataLoaded\<rparr>)))))"

text \<open>
  update\_publish\_tags.py, the shell variant: it prints the path first and the options
  before it compares them, prints the new options before it writes, and ends by running off
  the end of the script.
\<close>

definition main :: "'c lib \<Rightarrow> string list \<Rightarrow> filesystem \<Rightarrow> 'c yaml outcome" where
  "main L argv fs =
     (if length argv \<noteq> 2
      then \<lparr>status = Exit 93, stdout = [Text usage], files = fs, reads = [], writes = [],
            document = None\<rparr>
      else
        let pathName = abspath L (argv ! 1);
            publishReleaseYamlPath = publish_release_yaml pathName;
            out0 = [Text publishReleaseYamlPath];
            tags = tags_of (popen_git_tag L)
        in
        (case fs publishReleaseYamlPath of
           None \<Rightarrow> raised FileNotFoundError out0 fs [publishReleaseYamlPath] [] None
         | Some text \<Rightarrow>
        (case yaml_load L text of
           Inl e \<Rightarrow> raised e out0 fs [publishReleaseYamlPath] [] None
         | Inr dataLoaded \<Rightarrow>
        let publishReleaseYamlFileName = basename publishReleaseYamlPath in
        (case get_options dataLoaded of
           Inl e \<Rightarrow> raised e out0 fs [publishReleaseYamlPath] [] (Some dataLoaded)
         | Inr options \<Rightarrow>
        let out1 =
          out0 @ [TextVal (''tags in '' @ publishReleaseYamlFileName @ '':'')
                    (shown dataLoaded options)]
        in
        if \<not> list_eq (heap dataLoaded) options tags
        then
          (case set_options dataLoaded tags of
             Inl e \<Rightarrow> raised e out1 fs [publishReleaseYamlPath] [] (Some dataLoaded)
           | Inr dataLoaded' \<Rightarrow>
          (case get_options dataLoaded' of
             Inl e \<Rightarrow> raised e out1 fs [publishReleaseYamlPath] [] (Some dataLoaded')
           | Inr options' \<Rightarrow>
               \<lparr>status = Exit 0,
                stdout = out1 @
                  [TextVal (''updated tags in '' @ publishReleaseYamlFileName @ '' to:'')
                     (shown dataLoaded' options'),
                   Text ''tags updated!''],
                files = fs(publishReleaseYamlPath \<mapsto> yaml_dump L dataLoaded'),
                reads = [publishReleaseYamlPath], writes = [publishReleaseYamlPath],
                document = Some dataLoaded'\<rparr>))
        else
          \<lparr>status = Exit 0, stdout = out1 @ [Text ''tags are up to date!''],
           files = fs, reads = [publishReleaseYamlPath], writes = [],
           document = Some dataLoaded\<rparr>))))"

section \<open>The scenario of the specification\<close>

text \<open>
  A workflow file whose options are \<open>v1.1\<close> and \<open>v1.0\<close>, in a repository at \<open>/repo\<close>.
  The layout a node carries is a number here, and the library is a stand-in: the dumper
  writes the options of the document only, one after the other, and the loader knows the
  text that the scenario's document is dumped to.
\<close>

definition scenario_doc :: "nat yaml" where
  "scenario_doc =
     \<lparr>root = Ref 0,
      heap =
        [Map (Some 0)
           [(''name'', Str (Some 1) ''Publish Release''), (''on'', Ref 1), (''jobs'', Ref 6)],
         Map (Some 2) [(''workflow_dispatch'', Ref 2)],
         Map (Some 3) [(''inputs'', Ref 3)],
         Map (Some 4) [(''releaseTag'', Ref 4)],
         Map (Some 5)
           [(''type'', Str (Some 6) ''choice''), (''options'', Ref 5),
            (''required'', NonStr (Some 7) ''true'')],
         Seq (Some 8) [Str (Some 9) ''v1.1'', Str (Some 10) ''v1.0''],
         Map (Some 11) []]\<rparr>"

fun scalar_text :: "'c val \<Rightarrow> string" where
  "scalar_text (Str c s) = s @ '' ''"
| "scalar_text (NonStr c s) = s @ '' ''"
| "scalar_text (Ref a) = []"

definition scenario_dump :: "nat yaml \<Rightarrow> string" where
  "scenario_dump d =
     (case get_options d of
        Inr (Ref a) \<Rightarrow>
          (case deref (heap d) a of Some (Seq c xs) \<Rightarrow> concat (map scalar_text xs) | _ \<Rightarrow> [])
      | _ \<Rightarrow> [])"

text \<open>
  The same file with a second input that is an alias of the first:
  \<^verbatim>\<open>releaseTag: &tag {type: choice, options: [v1.1, v1.0]}\<close> and \<^verbatim>\<open>previousTag: *tag\<close>.
  Both keys refer to the one mapping at address 4.
\<close>

definition alias_doc :: "nat yaml" where
  "alias_doc =
     \<lparr>root = Ref 0,
      heap =
        [Map (Some 0)
           [(''name'', Str (Some 1) ''Publish Release''), (''on'', Ref 1), (''jobs'', Ref 6)],
         Map (Some 2) [(''workflow_dispatch'', Ref 2)],
         Map (Some 3) [(''inputs'', Ref 3)],
         Map (Some 4) [(''releaseTag'', Ref 4), (''previousTag'', Ref 4)],
         Map (Some 5)
           [(''type'', Str (Some 6) ''choice''), (''options'', Ref 5),
            (''required'', NonStr (Some 7) ''true'')],
         Seq (Some 8) [Str (Some 9) ''v1.1'', Str (Some 10) ''v1.0''],
         Map (Some 11) []]\<rparr>"


definition previous_options_path :: "string list" where
  "previous_options_path =
     [''on'', ''workflow_dispatch'', ''inputs'', ''previousTag'', ''options'']"

definition scenario_lib :: "string \<Rightarrow> nat lib" where
  "scenario_lib git_output =
     \<lparr>abspath = (\<lambda>p. if p = ''.'' then ''/repo'' else ''/repo/'' @ p),
      yaml_load = (\<lambda>text. if text = ''v1.1 v1.0 '' then Inr scenario_doc
                           else if text = ''alias'' then Inr alias_doc
                           else Inl YAMLError),
      yaml_dump = scenario_dump,
      repo_git_tag = (\<lambda>dir. if dir = ''/repo'' then Inr git_output else Inl GitError),
      popen_git_tag = git_output\<rparr>"

text \<open>What git prints where the tags are \<open>v2.0\<close>, \<open>v1.1\<close> and \<open>v1.0\<close>.\<close>

definition scenario_git_output :: string where
  "scenario_git_output = ''v2.0'' @ [nl] @ ''v1.1'' @ [nl] @ ''v1.0'' @ [nl]"

definition scenario_argv :: "string list" where
  "scenario_argv = [''update_publish_tags.py'', ''.'']"

definition scenario_fs :: filesystem where
  "scenario_fs = [''/repo/.github/workflows/publish_release.yml'' \<mapsto> ''v1.1 v1.0 '']"

definition alias_fs :: filesystem where
  "alias_fs = [''/repo/.github/workflows/publish_release.yml'' \<mapsto> ''alias'']"

section \<open>Reading lines\<close>

text \<open>Three line ends of three kinds, and a last line without one.\<close>

lemma readlines_line_ends:
  "readlines (''a'' @ [cr, nl] @ ''b'' @ [cr] @ ''c'' @ [nl] @ ''d'')
     = [''a'' @ [nl], ''b'' @ [nl], ''c'' @ [nl], ''d'']"
  by (simp add: readlines_def nl_def cr_def)

section \<open>The stripper's line filter\<close>

lemma kept_marker: "is_marker l \<Longrightarrow> kept l"
  by (simp add: kept_def)

lemma kept_closing: "is_closing l \<Longrightarrow> kept l"
  by (simp add: kept_def)

lemma strip_step_marker:
  "is_marker l \<Longrightarrow>
     strip_step l st = st\<lparr>startDelete := True, finalLines := finalLines st @ [l]\<rparr>"
  by (simp add: strip_step_def)

lemma strip_step_deleting:
  "startDelete st \<Longrightarrow>
     strip_step l st = (if kept l then st\<lparr>finalLines := finalLines st @ [l]\<rparr> else st)"
  by (simp add: strip_step_def kept_def)

lemma strip_step_scanning:
  "\<not> startDelete st \<Longrightarrow> \<not> is_marker l \<Longrightarrow>
     strip_step l st = st\<lparr>finalLines := finalLines st @ [l]\<rparr>"
  by (simp add: strip_step_def)

lemma fold_strip_step_deleting:
  "startDelete st \<Longrightarrow>
     fold strip_step ls st = st\<lparr>finalLines := finalLines st @ filter kept ls\<rparr>"
proof (induction ls arbitrary: st)
  case Nil
  then show ?case by simp
next
  case (Cons l ls)
  let ?st = "strip_step l st"
  from Cons.prems have step: "?st = (if kept l then st\<lparr>finalLines := finalLines st @ [l]\<rparr> else st)"
    by (rule strip_step_deleting)
  with Cons.prems have "startDelete ?st" by simp
  then have "fold strip_step ls ?st = ?st\<lparr>finalLines := finalLines ?st @ filter kept ls\<rparr>"
    by (rule Cons.IH)
  with step show ?case by simp
qed

lemma fold_strip_step_scanning:
  "\<not> startDelete st \<Longrightarrow>
     finalLines (fold strip_step ls st) =
       finalLines st @ takeWhile (\<lambda>l. \<not> is_marker l) ls
         @ filter kept (dropWhile (\<lambda>l. \<not> is_marker l) ls)"
proof (induction ls arbitrary: st)
  case Nil
  then show ?case by simp
next
  case (Cons l ls)
  let ?st = "strip_step l st"
  show ?case
  proof (cases "is_marker l")
    case True
    then have step: "?st = st\<lparr>startDelete := True, finalLines := finalLines st @ [l]\<rparr>"
      by (rule strip_step_marker)
    then have "startDelete ?st" by simp
    then have "fold strip_step ls ?st = ?st\<lparr>finalLines := finalLines ?st @ filter kept ls\<rparr>"
      by (rule fold_strip_step_deleting)
    with step True show ?thesis by (simp add: kept_marker)
  next
    case False
    with Cons.prems have step: "?st = st\<lparr>finalLines := finalLines st @ [l]\<rparr>"
      by (simp add: strip_step_scanning)
    with Cons.prems have "\<not> startDelete ?st" by simp
    then have "finalLines (fold strip_step ls ?st) =
       finalLines ?st @ takeWhile (\<lambda>l. \<not> is_marker l) ls
         @ filter kept (dropWhile (\<lambda>l. \<not> is_marker l) ls)"
      by (rule Cons.IH)
    with step False show ?thesis by simp
  qed
qed

lemma strip_lines_eq:
  "strip_lines ls =
     takeWhile (\<lambda>l. \<not> is_marker l) ls @ filter kept (dropWhile (\<lambda>l. \<not> is_marker l) ls)"
  by (simp add: strip_lines_def fold_strip_step_scanning)

lemma takeWhile_all: "\<forall>x \<in> set xs. P x \<Longrightarrow> takeWhile P xs = xs"
  by simp

lemma dropWhile_all: "\<forall>x \<in> set xs. P x \<Longrightarrow> dropWhile P xs = []"
  by simp

lemma strip_lines_no_marker:
  assumes "\<forall>l \<in> set ls. \<not> is_marker l"
  shows "strip_lines ls = ls"
  unfolding strip_lines_eq takeWhile_all [OF assms] dropWhile_all [OF assms] by simp

lemma strip_lines_at_marker:
  assumes m: "is_marker m"
  shows "strip_lines (pre @ m # rest) = strip_lines pre @ m # filter kept rest"
proof (cases "\<forall>l \<in> set pre. \<not> is_marker l")
  case True
  from True m have "takeWhile (\<lambda>l. \<not> is_marker l) (pre @ m # rest) = pre"
    and "dropWhile (\<lambda>l. \<not> is_marker l) (pre @ m # rest) = m # rest"
    by (simp_all add: takeWhile_append2 dropWhile_append2)
  then have "strip_lines (pre @ m # rest) = pre @ filter kept (m # rest)"
    by (simp only: strip_lines_eq)
  with m strip_lines_no_marker [OF True] show ?thesis
    by (simp add: kept_marker)
next
  case False
  then obtain x where "x \<in> set pre" "\<not> \<not> is_marker x" by blast
  then have "takeWhile (\<lambda>l. \<not> is_marker l) (pre @ m # rest) = takeWhile (\<lambda>l. \<not> is_marker l) pre"
    and "dropWhile (\<lambda>l. \<not> is_marker l) (pre @ m # rest)
           = dropWhile (\<lambda>l. \<not> is_marker l) pre @ m # rest"
    by (rule takeWhile_append1, rule dropWhile_append1)
  then have "strip_lines (pre @ m # rest) =
      takeWhile (\<lambda>l. \<not> is_marker l) pre
        @ filter kept (dropWhile (\<lambda>l. \<not> is_marker l) pre @ m # rest)"
    by (simp only: strip_lines_eq)
  with m show ?thesis
    by (simp add: strip_lines_eq kept_marker)
qed

lemma filter_marker_kept: "filter is_marker (filter kept xs) = filter is_marker xs"
  by (induction xs) (simp_all add: kept_marker)

lemma filter_kept_no_closing:
  "\<forall>l \<in> set xs. \<not> is_closing l \<Longrightarrow> filter kept xs = filter is_marker xs"
  by (induction xs) (simp_all add: kept_def)

lemmas strip_eval = strip_lines_def strip_step_def is_marker_def is_closing_def kept_def

text \<open>
  The scenario of the specification: the entry after the marker goes, the marker line and
  the closing tag stay.
\<close>

lemma strip_lines_scenario:
  "strip_lines [''<resources>'', ''<string name=app_name>X</string>'',
                ''<string name=foo>Y</string>'', ''</resources>'']
   = [''<resources>'', ''<string name=app_name>X</string>'', ''</resources>'']"
  by (simp add: strip_eval)

text \<open>
  C2, as stated: every line strictly between the marker line and the closing-tag line is
  removed. It fails on a file whose entry after \<open>app_name\<close> is \<open>app_name_debug\<close>: that line
  lies strictly between the marker line and the closing tag, passes the marker test itself,
  and is in the output.
\<close>

theorem marker_span_line_survives:
  "\<not> is_marker ''<resources>'' \<and>
   is_marker ''<string name=app_name>A</string>'' \<and>
   \<not> is_closing ''<string name=app_name_debug>B</string>'' \<and>
   is_closing ''</resources>'' \<and>
   strip_lines [''<resources>'', ''<string name=app_name>A</string>'',
                ''<string name=app_name_debug>B</string>'', ''</resources>'']
   = [''<resources>'', ''<string name=app_name>A</string>'',
      ''<string name=app_name_debug>B</string>'', ''</resources>'']"
  by (simp add: strip_eval)

text \<open>
  C2, amended: when the first marker line is followed later by a closing-tag line, the first
  one after it, the output keeps the lines before the marker, the marker line and the
  closing-tag line verbatim, and of the lines strictly between the two it removes exactly
  those that do not contain \<open>app_name\<close> themselves.
\<close>

theorem marker_span_removed_except_markers:
  assumes "\<forall>l \<in> set pre. \<not> is_marker l" and "is_marker m"
    and "\<forall>l \<in> set mid. \<not> is_closing l" and "is_closing c"
  shows "strip_lines (pre @ m # mid @ c # post) =
     pre @ m # filter is_marker mid @ c # filter kept post"
  using assms
  by (simp add: strip_lines_at_marker strip_lines_no_marker filter_kept_no_closing kept_closing)

theorem marker_span_removed_except_markers_witness:
  "strip_lines ([''<resources>''] @ ''<string name=app_name>A</string>''
       # [''<string name=foo>B</string>'', ''<string name=app_name_debug>C</string>'',
          ''<string name=bar>D</string>'']
       @ ''</resources>'' # [])
   = [''<resources>'', ''<string name=app_name>A</string>'',
      ''<string name=app_name_debug>C</string>'', ''</resources>'']"
  using marker_span_removed_except_markers
    [of "[''<resources>'']" "''<string name=app_name>A</string>''"
        "[''<string name=foo>B</string>'', ''<string name=app_name_debug>C</string>'',
          ''<string name=bar>D</string>'']"
        "''</resources>''" "[]"]
  by (simp add: is_marker_def is_closing_def)

text \<open>
  C4: the line filter is idempotent. After one pass every line from the first marker line on
  passes one of the two tests, so a second pass keeps them all.
\<close>

theorem strip_lines_idempotent: "strip_lines (strip_lines ls) = strip_lines ls"
proof (cases "\<forall>l \<in> set ls. \<not> is_marker l")
  case True
  then show ?thesis by (simp add: strip_lines_no_marker)
next
  case False
  then obtain pre m rest where ls: "ls = pre @ m # rest" and m: "is_marker m"
    and pre: "\<forall>l \<in> set pre. \<not> is_marker l"
    by (metis split_list_first_prop)
  have out: "strip_lines ls = pre @ m # filter kept rest"
    unfolding ls using strip_lines_at_marker [OF m] strip_lines_no_marker [OF pre] by simp
  show ?thesis
    unfolding out
    using strip_lines_at_marker [OF m, of pre "filter kept rest"] strip_lines_no_marker [OF pre]
    by simp
qed

text \<open>
  C5: the lines before the first line that contains \<open>app_name\<close> are the beginning of the
  output, unchanged and in order; without such a line that is the whole input.
\<close>

theorem lines_before_marker_unchanged:
  "prefix (takeWhile (\<lambda>l. \<not> is_marker l) ls) (strip_lines ls)"
  by (simp add: strip_lines_eq)

text \<open>
  C6, as stated: every line after the closing-tag line is kept. The loop never leaves
  deleting mode, so a line after the closing tag that passes neither test is dropped like
  the entries before the tag.
\<close>

theorem line_after_closing_dropped:
  "is_marker ''<string name=app_name>A</string>'' \<and>
   is_closing ''</resources>'' \<and>
   strip_lines [''<resources>'', ''<string name=app_name>A</string>'',
                ''<string name=foo>B</string>'', ''</resources>'', ''<!-- end -->'']
   = [''<resources>'', ''<string name=app_name>A</string>'', ''</resources>'']"
  by (simp add: strip_eval)

text \<open>
  C6, amended: from the marker line on, the closing-tag line included and the lines after it
  too, a line is kept, unchanged and in order, exactly when it contains \<open>app_name\<close> or
  \<open></resources>\<close>.
\<close>

theorem lines_after_closing_filtered:
  assumes "is_marker m" and "is_closing c"
  shows "strip_lines (pre @ m # mid @ c # post) =
     strip_lines pre @ m # filter kept mid @ c # filter kept post"
  using assms by (simp add: strip_lines_at_marker kept_closing)

theorem lines_after_closing_filtered_witness:
  "strip_lines ([''<resources>''] @ ''<string name=app_name>A</string>''
       # [''<string name=foo>B</string>''] @ ''</resources>''
       # [''<!-- end -->'', ''</resources>''])
   = [''<resources>'', ''<string name=app_name>A</string>'', ''</resources>'',
      ''</resources>'']"
  using lines_after_closing_filtered
    [of "''<string name=app_name>A</string>''" "''</resources>''" "[''<resources>'']"
        "[''<string name=foo>B</string>'']" "[''<!-- end -->'', ''</resources>'']"]
  by (simp add: strip_eval)

text \<open>
  C10: every line that contains \<open>app_name\<close> is in the output, as often and in the order of
  the input; and wherever such a line stands, it stands in the output between what the
  filter makes of the lines before it and of the lines after it.
\<close>

theorem marker_lines_all_kept:
  "filter is_marker (strip_lines ls) = filter is_marker ls \<and>
   (is_marker l \<longrightarrow>
      strip_lines (pre @ l # post) = strip_lines pre @ l # filter kept post)"
proof
  have "filter is_marker (strip_lines ls) =
      filter is_marker (takeWhile (\<lambda>l. \<not> is_marker l) ls)
        @ filter is_marker (dropWhile (\<lambda>l. \<not> is_marker l) ls)"
    by (simp only: strip_lines_eq filter_append filter_marker_kept)
  also have "\<dots> =
      filter is_marker (takeWhile (\<lambda>l. \<not> is_marker l) ls @ dropWhile (\<lambda>l. \<not> is_marker l) ls)"
    by (simp only: filter_append)
  finally show "filter is_marker (strip_lines ls) = filter is_marker ls" by simp
  show "is_marker l \<longrightarrow>
      strip_lines (pre @ l # post) = strip_lines pre @ l # filter kept post"
    by (simp add: strip_lines_at_marker)
qed

theorem marker_lines_all_kept_witness:
  "filter is_marker (strip_lines [''app_name 1'', ''x'', ''app_name 2'', ''</resources>''])
     = [''app_name 1'', ''app_name 2''] \<and>
   strip_lines ([''app_name 1'', ''x''] @ ''app_name 2'' # [''y'', ''</resources>''])
     = [''app_name 1'', ''app_name 2'', ''</resources>'']"
  using marker_lines_all_kept
    [of "[''app_name 1'', ''x'', ''app_name 2'', ''</resources>'']" "''app_name 2''"
        "[''app_name 1'', ''x'']" "[''y'', ''</resources>'']"]
  by (simp add: strip_eval)

section \<open>Reading and assigning in the document\<close>

lemma getitem_Inr:
  "getitem h v k = Inr x \<Longrightarrow>
     \<exists>a c kvs. v = Ref a \<and> a < length h \<and> h ! a = Map c kvs \<and> map_of kvs k = Some x"
  by (cases v) (auto simp: deref_def split: option.splits obj.splits if_splits)

lemma getitem_Map:
  "a < length h \<Longrightarrow> h ! a = Map c kvs \<Longrightarrow>
     getitem h (Ref a) k = (case map_of kvs k of None \<Rightarrow> Inl KeyError | Some v \<Rightarrow> Inr v)"
  by (simp add: deref_def)

text \<open>A new object changes no lookup that succeeded.\<close>

lemma getitem_append:
  "getitem h v k = Inr x \<Longrightarrow> getitem (h @ [ob]) v k = Inr x"
  by (auto dest!: getitem_Inr simp: deref_def nth_append)

lemma get_path_append:
  "get_path h v ps = Inr x \<Longrightarrow> get_path (h @ [ob]) v ps = Inr x"
proof (induction ps arbitrary: v)
  case Nil
  then show ?case by simp
next
  case (Cons p ps)
  from Cons.prems obtain w where w: "getitem h v p = Inr w" and "get_path h w ps = Inr x"
    by (auto split: sum.splits)
  from getitem_append [OF w] Cons.IH [OF this(2)] show ?case by simp
qed

text \<open>An assignment to the key \<open>k\<close> of one mapping changes no lookup of another key.\<close>

lemma getitem_update_other:
  assumes "a < length h" and "h ! a = Map c kvs" and "p \<noteq> k"
  shows "getitem (h[a := Map c (AList.update k v kvs)]) w p = getitem h w p"
proof (cases w)
  case (Ref b)
  show ?thesis
  proof (cases "b = a")
    case True
    with assms Ref show ?thesis by (simp add: deref_def update_conv')
  next
    case False
    with Ref show ?thesis by (simp add: deref_def)
  qed
qed simp_all

lemma get_path_update_other:
  assumes "a < length h" and "h ! a = Map c kvs" and "k \<notin> set ps"
  shows "get_path (h[a := Map c (AList.update k v kvs)]) w ps = get_path h w ps"
  using assms(3)
proof (induction ps arbitrary: w)
  case Nil
  then show ?case by simp
next
  case (Cons p ps)
  then have "p \<noteq> k" "k \<notin> set ps" by auto
  with getitem_update_other [OF assms(1,2), of p k v w] Cons.IH show ?case
    by (simp split: sum.splits)
qed

lemma get_path_snoc:
  "get_path h v (ps @ [k]) =
     (case get_path h v ps of Inl e \<Rightarrow> Inl e | Inr t \<Rightarrow> getitem h t k)"
  by (induction ps arbitrary: v) (auto split: sum.splits)

lemma options_path_split: "options_path = release_tag_path @ [''options'']"
  by (simp add: options_path_def release_tag_path_def)

lemma options_not_on_the_way: "''options'' \<notin> set release_tag_path"
  by (simp add: release_tag_path_def)

text \<open>
  The assignment, where the options can be read: one entry of one mapping changes, the
  mapping that the path to \<open>releaseTag\<close> leads to, and the list of the tags is one object
  more. Nothing else of the document is touched.
\<close>

lemma set_options_in_place:
  assumes "get_options d = Inr old"
  shows "\<exists>a c kvs.
           get_path (heap d) (root d) release_tag_path = Inr (Ref a) \<and>
           a < length (heap d) \<and> heap d ! a = Map c kvs \<and> map_of kvs ''options'' = Some old \<and>
           set_options d tags =
             Inr (d\<lparr>heap := (heap d)[a := Map c (AList.update ''options''
                                                   (Ref (length (heap d))) kvs)]
                               @ [py_list tags]\<rparr>)"
proof -
  from assms obtain t where t: "get_path (heap d) (root d) release_tag_path = Inr t"
    and g: "getitem (heap d) t ''options'' = Inr old"
    by (auto simp: get_options_def options_path_split get_path_snoc split: sum.splits)
  from getitem_Inr [OF g] obtain a c kvs where a: "t = Ref a" "a < length (heap d)"
    "heap d ! a = Map c kvs" "map_of kvs ''options'' = Some old" by blast
  from t have "get_path (heap d @ [py_list tags]) (root d) release_tag_path = Inr t"
    by (rule get_path_append)
  with a have "set_options d tags =
      Inr (d\<lparr>heap := (heap d @ [py_list tags])[a := Map c (AList.update ''options''
                                                   (Ref (length (heap d))) kvs)]\<rparr>)"
    by (simp add: set_options_def alloc_def assign_path_def deref_def nth_append)
  with a t show ?thesis by (auto simp: list_update_append1)
qed

lemma get_options_assigned:
  assumes "get_path h r release_tag_path = Inr (Ref a)" and "a < length h"
    and "h ! a = Map c kvs"
  shows "get_path (h[a := Map c (AList.update ''options'' v kvs)] @ [ob]) r options_path
           = Inr v"
proof -
  let ?h = "h[a := Map c (AList.update ''options'' v kvs)]"
  from assms have "get_path ?h r release_tag_path = Inr (Ref a)"
    by (simp add: get_path_update_other options_not_on_the_way)
  then have "get_path (?h @ [ob]) r release_tag_path = Inr (Ref a)"
    by (rule get_path_append)
  moreover from assms(2) have "getitem (?h @ [ob]) (Ref a) ''options'' = Inr v"
    by (simp add: deref_def nth_append update_conv')
  ultimately show ?thesis by (simp add: options_path_split get_path_snoc)
qed


lemma set_options_succeeds:
  assumes "get_options d = Inr old"
  shows "\<exists>d'. set_options d tags = Inr d' \<and> get_options d' = Inr (Ref (length (heap d))) \<and>
           deref (heap d') (length (heap d)) = Some (py_list tags)"
proof -
  from set_options_in_place [OF assms, of tags] obtain a c kvs where
    a: "get_path (heap d) (root d) release_tag_path = Inr (Ref a)" "a < length (heap d)"
       "heap d ! a = Map c kvs"
    and s: "set_options d tags =
             Inr (d\<lparr>heap := (heap d)[a := Map c (AList.update ''options''
                                                   (Ref (length (heap d))) kvs)]
                               @ [py_list tags]\<rparr>)"
    by blast
  from get_options_assigned [OF a] s show ?thesis
    by (simp add: get_options_def deref_def nth_append)
qed

lemma set_options_get:
  "get_options d = Inr old \<Longrightarrow> set_options d tags = Inr d' \<Longrightarrow>
     get_options d' = Inr (Ref (length (heap d)))"
  using set_options_succeeds [of d old tags] by auto

lemma set_options_written:
  assumes "get_options d = Inr old"
  shows "\<exists>d'. set_options d tags = Inr d' \<and>
           get_options d' = Inr (Ref (length (heap d') - 1)) \<and>
           deref (heap d') (length (heap d') - 1) = Some (py_list tags)"
proof -
  from set_options_in_place [OF assms, of tags] obtain a c kvs where
    s: "set_options d tags =
             Inr (d\<lparr>heap := (heap d)[a := Map c (AList.update ''options''
                                                   (Ref (length (heap d))) kvs)]
                               @ [py_list tags]\<rparr>)"
    by blast
  with set_options_succeeds [OF assms, of tags] show ?thesis by auto
qed

section \<open>The tag list and the names of the file\<close>

lemma basename_publish_release_yaml:
  "basename (publish_release_yaml dir) = ''publish_release.yml''"
  by (simp add: basename_def publish_release_yaml_def)

lemma split_nl_not_Nil: "split_nl s \<noteq> []"
  by (induction s) (auto split: list.splits)

lemmas tags_eval = tags_of_def py_strip_def isspace_def nl_def


lemma tags_of_nothing: "tags_of [] = [[]]"
  by (simp add: tags_of_def py_strip_def)

section \<open>The branches of the two tag scripts\<close>

lemma hook_main_up_to_date:
  assumes "length argv = 2"
    and "repo_git_tag L (abspath L (argv ! 1)) = Inr out"
    and "fs (publish_release_yaml (abspath L (argv ! 1))) = Some ytext"
    and "yaml_load L ytext = Inr doc" and "get_options doc = Inr opts"
    and "list_eq (heap doc) opts (tags_of out)"
  shows "hook_main L argv fs =
    \<lparr>status = Exit 93,
     stdout = [Text (''tags in '' @ quoted ''publish_release.yml'' @ '' are up to date!'')],
     files = fs, reads = [publish_release_yaml (abspath L (argv ! 1))], writes = [],
     document = Some doc\<rparr>"
  using assms by (simp add: hook_main_def Let_def basename_publish_release_yaml)

lemma main_up_to_date:
  assumes "length argv = 2"
    and "fs (publish_release_yaml (abspath L (argv ! 1))) = Some ytext"
    and "yaml_load L ytext = Inr doc" and "get_options doc = Inr opts"
    and "list_eq (heap doc) opts (tags_of (popen_git_tag L))"
  shows "main L argv fs =
    \<lparr>status = Exit 0,
     stdout = [Text (publish_release_yaml (abspath L (argv ! 1))),
               TextVal ''tags in publish_release.yml:'' (shown doc opts),
               Text ''tags are up to date!''],
     files = fs, reads = [publish_release_yaml (abspath L (argv ! 1))], writes = [],
     document = Some doc\<rparr>"
  using assms by (simp add: main_def Let_def basename_publish_release_yaml)

lemma hook_main_updates:
  assumes "length argv = 2"
    and "repo_git_tag L (abspath L (argv ! 1)) = Inr out"
    and "fs (publish_release_yaml (abspath L (argv ! 1))) = Some ytext"
    and "yaml_load L ytext = Inr doc" and "get_options doc = Inr opts"
    and "\<not> list_eq (heap doc) opts (tags_of out)"
    and "set_options doc (tags_of out) = Inr doc'"
  shows "hook_main L argv fs =
    \<lparr>status = Exit 0,
     stdout = [TextVal (''tags in '' @ quoted ''publish_release.yml'' @ '':'') (shown doc opts),
               TextVal (''updated tags in '' @ quoted ''publish_release.yml'' @ '' to:'')
                 (shown doc' (Ref (length (heap doc)))),
               Text ''tags updated!''],
     files = fs(publish_release_yaml (abspath L (argv ! 1)) \<mapsto> yaml_dump L doc'),
     reads = [publish_release_yaml (abspath L (argv ! 1))],
     writes = [publish_release_yaml (abspath L (argv ! 1))],
     document = Some doc'\<rparr>"
  using assms set_options_get [OF assms(5,7)]
  by (simp add: hook_main_def Let_def basename_publish_release_yaml)

lemma main_updates:
  assumes "length argv = 2"
    and "fs (publish_release_yaml (abspath L (argv ! 1))) = Some ytext"
    and "yaml_load L ytext = Inr doc" and "get_options doc = Inr opts"
    and "\<not> list_eq (heap doc) opts (tags_of (popen_git_tag L))"
    and "set_options doc (tags_of (popen_git_tag L)) = Inr doc'"
  shows "main L argv fs =
    \<lparr>status = Exit 0,
     stdout = [Text (publish_release_yaml (abspath L (argv ! 1))),
               TextVal ''tags in publish_release.yml:'' (shown doc opts),
               TextVal ''updated tags in publish_release.yml to:''
                 (shown doc' (Ref (length (heap doc)))),
               Text ''tags updated!''],
     files = fs(publish_release_yaml (abspath L (argv ! 1)) \<mapsto> yaml_dump L doc'),
     reads = [publish_release_yaml (abspath L (argv ! 1))],
     writes = [publish_release_yaml (abspath L (argv ! 1))],
     document = Some doc'\<rparr>"
  using assms set_options_get [OF assms(4,6)]
  by (simp add: main_def Let_def basename_publish_release_yaml)

section \<open>The scenario, evaluated\<close>

lemmas scenario_eval = scenario_lib_def scenario_argv_def scenario_fs_def alias_fs_def
  publish_release_yaml_def

lemmas path_eval = get_options_def options_path_def release_tag_path_def
  previous_options_path_def deref_def

lemma scenario_premises:
  "length scenario_argv = 2"
  "scenario_fs (publish_release_yaml (abspath (scenario_lib out) (scenario_argv ! 1)))
     = Some ''v1.1 v1.0 ''"
  "yaml_load (scenario_lib out) ''v1.1 v1.0 '' = Inr scenario_doc"
  "get_options scenario_doc = Inr (Ref 5)"
  "repo_git_tag (scenario_lib out) (abspath (scenario_lib out) (scenario_argv ! 1)) = Inr out"
  "popen_git_tag (scenario_lib out) = out"
  by (simp_all add: scenario_eval scenario_doc_def path_eval)


lemma scenario_options_differ:
  "\<not> list_eq (heap scenario_doc) (Ref 5) [''v2.0'', ''v1.1'', ''v1.0'']"
  "\<not> list_eq (heap alias_doc) (Ref 5) [''v2.0'', ''v1.1'', ''v1.0'']"
  "\<not> list_eq (heap scenario_doc) (Ref 5) [[]]"
  "list_eq (heap scenario_doc) (Ref 5) [''v1.1'', ''v1.0'']"
  by (simp_all add: scenario_doc_def alias_doc_def deref_def)


lemma tags_of_up_to_date: "tags_of (''v1.1'' @ [nl] @ ''v1.0'' @ [nl]) = [''v1.1'', ''v1.0'']"
  by (simp add: tags_eval)

text \<open>
  Without a tag the options become the list of the empty string, which the stand-in dumper
  writes as one space.
\<close>

lemma no_tags_scenario:
  "\<exists>d. document (hook_main (scenario_lib []) scenario_argv scenario_fs) = Some d \<and>
      get_options d = Inr (Ref 7) \<and> deref (heap d) 7 = Some (py_list [[]]) \<and>
      files (hook_main (scenario_lib []) scenario_argv scenario_fs)
        = scenario_fs(''/repo/.github/workflows/publish_release.yml'' \<mapsto> '' '')"
proof -
  let ?L = "scenario_lib []"
  have len: "length (heap scenario_doc) = 7" by (simp add: scenario_doc_def)
  have differ: "\<not> list_eq (heap scenario_doc) (Ref 5) (tags_of [])"
    by (simp only: tags_of_nothing scenario_options_differ not_False_eq_True)
  from set_options_succeeds [OF scenario_premises(4), of "tags_of []"] obtain doc' where
    set: "set_options scenario_doc (tags_of []) = Inr doc'"
    and get: "get_options doc' = Inr (Ref 7)"
      "deref (heap doc') 7 = Some (py_list [[]])"
    unfolding len tags_of_nothing by blast
  from get have dump: "yaml_dump ?L doc' = '' ''"
    by (simp add: scenario_lib_def scenario_dump_def py_list_def)
  have path: "publish_release_yaml (abspath ?L (scenario_argv ! 1))
      = ''/repo/.github/workflows/publish_release.yml''"
    by (simp add: scenario_eval)
  from hook_main_updates [of scenario_argv ?L "[]" scenario_fs "''v1.1 v1.0 ''" scenario_doc
      "Ref 5" doc', OF scenario_premises(1) scenario_premises(5) scenario_premises(2-4) differ set]
    get dump path
  show ?thesis by simp
qed

section \<open>The claims on the two tag scripts\<close>




text \<open>
  C3: when the loaded options are equal to the tag list, neither variant writes: the files
  are as before the run. The repository-object variant ends with status 93, the shell
  variant with status 0.
\<close>

theorem up_to_date_no_write:
  assumes "length argv = 2"
    and "fs (publish_release_yaml (abspath L (argv ! 1))) = Some ytext"
    and "yaml_load L ytext = Inr doc"
    and "get_options doc = Inr opts"
    and "list_eq (heap doc) opts (tags_of out)"
  shows "(repo_git_tag L (abspath L (argv ! 1)) = Inr out \<longrightarrow>
            files (hook_main L argv fs) = fs \<and> writes (hook_main L argv fs) = [] \<and>
            status (hook_main L argv fs) = Exit 93) \<and>
         (popen_git_tag L = out \<longrightarrow>
            files (main L argv fs) = fs \<and> writes (main L argv fs) = [] \<and>
            status (main L argv fs) = Exit 0)"
  using assms hook_main_up_to_date [of argv L out fs ytext doc opts]
    main_up_to_date [of argv fs L ytext doc opts]
  by auto

theorem up_to_date_no_write_witness:
  "files (hook_main (scenario_lib (''v1.1'' @ [nl] @ ''v1.0'' @ [nl])) scenario_argv scenario_fs)
     = scenario_fs \<and>
   status (hook_main (scenario_lib (''v1.1'' @ [nl] @ ''v1.0'' @ [nl])) scenario_argv scenario_fs)
     = Exit 93 \<and>
   files (main (scenario_lib (''v1.1'' @ [nl] @ ''v1.0'' @ [nl])) scenario_argv scenario_fs)
     = scenario_fs \<and>
   status (main (scenario_lib (''v1.1'' @ [nl] @ ''v1.0'' @ [nl])) scenario_argv scenario_fs)
     = Exit 0"
proof -
  let ?out = "''v1.1'' @ [nl] @ ''v1.0'' @ [nl]"
  have same: "list_eq (heap scenario_doc) (Ref 5) (tags_of ?out)"
    unfolding tags_of_up_to_date by (rule scenario_options_differ(4))
  from up_to_date_no_write
    [of scenario_argv scenario_fs "scenario_lib ?out" "''v1.1 v1.0 ''" scenario_doc
        "Ref 5" ?out,
     OF scenario_premises(1-4) same]
    scenario_premises(5,6) [of ?out]
  show ?thesis by blast
qed

text \<open>
  C7: with an argument count other than one, each of the three scripts prints its usage
  message and exits with 93; it has opened no file for reading or writing, the files are
  as they were, and the outcome depends on nothing the library or git would answer.
\<close>

theorem wrong_argument_count_exits_93:
  assumes "length argv \<noteq> 2"
  shows "(strip_main ab argv fs :: 'c yaml outcome) =
           \<lparr>status = Exit 93, stdout = [Text ''values folder not provided''],
            files = fs, reads = [], writes = [], document = None\<rparr> \<and>
         hook_main L argv fs =
           \<lparr>status = Exit 93, stdout = [Text usage],
            files = fs, reads = [], writes = [], document = None\<rparr> \<and>
         main L argv fs =
           \<lparr>status = Exit 93, stdout = [Text usage],
            files = fs, reads = [], writes = [], document = None\<rparr>"
  using assms by (simp add: strip_main_def hook_main_def main_def)

theorem wrong_argument_count_exits_93_witness:
  "status (strip_main (\<lambda>p. p) [''strip.py'', ''values'', ''extra''] scenario_fs
             :: nat yaml outcome) = Exit 93 \<and>
   reads (strip_main (\<lambda>p. p) [''strip.py'', ''values'', ''extra''] scenario_fs
            :: nat yaml outcome) = [] \<and>
   status (hook_main (scenario_lib scenario_git_output)
             [''strip.py'', ''values'', ''extra''] scenario_fs) = Exit 93 \<and>
   files (main (scenario_lib scenario_git_output) [''strip.py'', ''values'', ''extra'']
            scenario_fs) = scenario_fs"
proof -
  have "length [''strip.py'', ''values'', ''extra''] \<noteq> 2" by simp
  note exits = wrong_argument_count_exits_93
    [of "[''strip.py'', ''values'', ''extra'']" "\<lambda>p. p" scenario_fs
        "scenario_lib scenario_git_output", OF this]
  show ?thesis by (simp add: exits)
qed




lemma hook_main_written:
  assumes "writes (hook_main L argv fs) \<noteq> []"
  shows "\<exists>d s. document (hook_main L argv fs) = Some d \<and>
           get_options d = Inr (Ref (length (heap d) - 1)) \<and>
           deref (heap d) (length (heap d) - 1) = Some (py_list (tags_of s))"
proof (cases "length argv = 2")
  case False
  with assms show ?thesis by (simp add: hook_main_def)
next
  case argv: True
  show ?thesis
  proof (cases "repo_git_tag L (abspath L (argv ! 1))")
    case (Inl e)
    with argv assms show ?thesis by (simp add: hook_main_def Let_def raised_def)
  next
    case git: (Inr out)
    show ?thesis
    proof (cases "fs (publish_release_yaml (abspath L (argv ! 1)))")
      case None
      with argv git assms show ?thesis by (simp add: hook_main_def Let_def raised_def)
    next
      case yml: (Some ytext)
      show ?thesis
      proof (cases "yaml_load L ytext")
        case (Inl e)
        with argv git yml assms show ?thesis by (simp add: hook_main_def Let_def raised_def)
      next
        case load: (Inr doc)
        show ?thesis
        proof (cases "get_options doc")
          case (Inl e)
          with argv git yml load assms show ?thesis
            by (simp add: hook_main_def Let_def raised_def)
        next
          case opts: (Inr opts)
          show ?thesis
          proof (cases "list_eq (heap doc) opts (tags_of out)")
            case True
            from hook_main_up_to_date [of argv L out fs ytext doc opts, OF argv git yml load opts True] assms
            show ?thesis by simp
          next
            case False
            from set_options_written [OF opts] obtain doc' where
              set: "set_options doc (tags_of out) = Inr doc'"
              and get: "get_options doc' = Inr (Ref (length (heap doc') - 1))"
                "deref (heap doc') (length (heap doc') - 1) = Some (py_list (tags_of out))"
              by blast
            from hook_main_updates [of argv L out fs ytext doc opts doc', OF argv git yml load opts False set] get
            show ?thesis by auto
          qed
        qed
      qed
    qed
  qed
qed

lemma main_written:
  assumes "writes (main L argv fs) \<noteq> []"
  shows "\<exists>d s. document (main L argv fs) = Some d \<and>
           get_options d = Inr (Ref (length (heap d) - 1)) \<and>
           deref (heap d) (length (heap d) - 1) = Some (py_list (tags_of s))"
proof (cases "length argv = 2")
  case False
  with assms show ?thesis by (simp add: main_def)
next
  case argv: True
  show ?thesis
  proof -
    let ?out = "popen_git_tag L"
    show ?thesis
    proof (cases "fs (publish_release_yaml (abspath L (argv ! 1)))")
      case None
      with argv assms show ?thesis by (simp add: main_def Let_def raised_def)
    next
      case yml: (Some ytext)
      show ?thesis
      proof (cases "yaml_load L ytext")
        case (Inl e)
        with argv yml assms show ?thesis by (simp add: main_def Let_def raised_def)
      next
        case load: (Inr doc)
        show ?thesis
        proof (cases "get_options doc")
          case (Inl e)
          with argv yml load assms show ?thesis
            by (simp add: main_def Let_def raised_def)
        next
          case opts: (Inr opts)
          show ?thesis
          proof (cases "list_eq (heap doc) opts (tags_of ?out)")
            case True
            from main_up_to_date [of argv fs L ytext doc opts, OF argv yml load opts True] assms
            show ?thesis by simp
          next
            case False
            from set_options_written [OF opts] obtain doc' where
              set: "set_options doc (tags_of ?out) = Inr doc'"
              and get: "get_options doc' = Inr (Ref (length (heap doc') - 1))"
                "deref (heap doc') (length (heap doc') - 1) = Some (py_list (tags_of ?out))"
              by blast
            from main_updates [of argv fs L ytext doc opts doc', OF argv yml load opts False set] get
            show ?thesis by auto
          qed
        qed
      qed
    qed
  qed
qed

text \<open>
  C9: the empty output of git gives the tag list of the one empty string, and no output
  gives the empty list; so whenever a run of either variant writes, the options of its
  document are a Python list of at least one string.
\<close>

theorem no_tags_is_one_empty_tag:
  "tags_of [] = [[]] \<and> tags_of out \<noteq> [] \<and>
   (\<forall>r. (r = hook_main L argv fs \<or> r = main L argv fs) \<and> writes r \<noteq> [] \<longrightarrow>
      (\<exists>d a ts. document r = Some d \<and> get_options d = Inr (Ref a) \<and>
         deref (heap d) a = Some (py_list ts) \<and> ts \<noteq> []))"
proof (intro conjI allI impI)
  show "tags_of [] = [[]]" by (rule tags_of_nothing)
  show "tags_of out \<noteq> []" by (simp add: tags_of_def split_nl_not_Nil)
next
  fix r
  assume r: "(r = hook_main L argv fs \<or> r = main L argv fs) \<and> writes r \<noteq> []"
  have ne: "tags_of s \<noteq> []" for s by (simp add: tags_of_def split_nl_not_Nil)
  from r hook_main_written [of L argv fs] main_written [of L argv fs]
  have "\<exists>d a s. document r = Some d \<and> get_options d = Inr (Ref a) \<and>
      deref (heap d) a = Some (py_list (tags_of s))"
    by blast
  with ne show "\<exists>d a ts. document r = Some d \<and> get_options d = Inr (Ref a) \<and>
         deref (heap d) a = Some (py_list ts) \<and> ts \<noteq> []"
    by blast
qed

theorem no_tags_is_one_empty_tag_witness:
  "tags_of [] = [[]] \<and> tags_of scenario_git_output \<noteq> [] \<and>
   (\<exists>d a ts. document (main (scenario_lib []) scenario_argv scenario_fs) = Some d \<and>
      get_options d = Inr (Ref a) \<and> deref (heap d) a = Some (py_list ts) \<and> ts \<noteq> [])"
proof -
  let ?L = "scenario_lib []"
  have differ: "\<not> list_eq (heap scenario_doc) (Ref 5) (tags_of (popen_git_tag ?L))"
    by (simp only: scenario_premises(6) tags_of_nothing scenario_options_differ
        not_False_eq_True)
  from set_options_succeeds [OF scenario_premises(4)] obtain doc' where
    "set_options scenario_doc (tags_of (popen_git_tag ?L)) = Inr doc'" by blast
  from main_updates [of scenario_argv scenario_fs ?L "''v1.1 v1.0 ''" scenario_doc
      "Ref 5" doc', OF scenario_premises(1-4) differ this]
  have "writes (main ?L scenario_argv scenario_fs) \<noteq> []" by simp
  with no_tags_is_one_empty_tag [of scenario_git_output ?L scenario_argv scenario_fs]
  show ?thesis by blast
qed

end
